theory Spec2Isabelle
  imports Complex_Main "HOL-Library.Sublist"
begin

section \<open>JavaScript values\<close>

text \<open>
  The values the component handles come out of a parsed HTTP body: \<open>undefined\<close>, \<open>null\<close>,
  booleans, numbers, strings, arrays and objects. A number is a parsed JSON number, so it
  is never NaN; it is modelled as a rational (every finite double is one; a literal so
  large that it parses to Infinity is left out). An object is the list of its own
  properties; a parsed object has every key once.
  A string is a list of UTF-16 code units below 256, one \<open>char\<close> each.
\<close>

datatype jsval =
    JUndefined
  | JNull
  | JBool bool
  | JNum rat
  | JStr string
  | JArr "jsval list"
  | JObj "(string \<times> jsval) list"

text \<open>ToBoolean, as \<open>!x\<close>, \<open>x && y\<close> and \<open>x || y\<close> apply it.\<close>

fun truthy :: "jsval \<Rightarrow> bool" where
  "truthy JUndefined = False"
| "truthy JNull = False"
| "truthy (JBool b) = b"
| "truthy (JNum r) = (r \<noteq> 0)"
| "truthy (JStr s) = (s \<noteq> [])"
| "truthy (JArr xs) = True"
| "truthy (JObj kvs) = True"

text \<open>\<open>typeof x === "number"\<close>.\<close>

fun typeof_number :: "jsval \<Rightarrow> bool" where
  "typeof_number (JNum r) = True"
| "typeof_number v = False"

text \<open>
  \<open>x.k\<close> on a value that is neither \<open>undefined\<close> nor \<open>null\<close>, for the property names
  the component reads (\<open>error\<close>, \<open>ats_score\<close>, \<open>keyword_overlap\<close>, \<open>semantic_similarity\<close>,
  \<open>match_score\<close>): none of them is defined on a prototype, so only an object's own
  property answers.
\<close>

fun get_prop :: "string \<Rightarrow> jsval \<Rightarrow> jsval" where
  "get_prop k (JObj kvs) = (case map_of kvs k of Some v \<Rightarrow> v | None \<Rightarrow> JUndefined)"
| "get_prop k v = JUndefined"

text \<open>\<open>x?.k\<close>, \<open>a || b\<close> and \<open>a ?? b\<close>.\<close>

definition opt_prop :: "string \<Rightarrow> jsval \<Rightarrow> jsval" where
  "opt_prop k v = (if v = JUndefined \<or> v = JNull then JUndefined else get_prop k v)"

definition js_or :: "jsval \<Rightarrow> jsval \<Rightarrow> jsval" where
  "js_or a b = (if truthy a then a else b)"

definition nullish_or :: "jsval \<Rightarrow> jsval \<Rightarrow> jsval" where
  "nullish_or a b = (if a = JUndefined \<or> a = JNull then b else a)"

section \<open>Strings\<close>

text \<open>Decimal digits of a status code, as a template literal prints an integer.\<close>

definition digit_char :: "nat \<Rightarrow> char" where
  "digit_char d = char_of (48 + d)"

function show_nat :: "nat \<Rightarrow> string" where
  "show_nat n = (if n < 10 then [digit_char n] else show_nat (n div 10) @ [digit_char (n mod 10)])"
  by pat_completeness auto
termination
  by (relation "measure id") auto

declare show_nat.simps [simp del]

text \<open>
  \<open>String.prototype.trim\<close> removes white space and line terminators from both ends;
  below 256 these are the code units 9 to 13, 32 and 160.
\<close>

definition is_space :: "char \<Rightarrow> bool" where
  "is_space c = (let n = (of_char c :: nat) in (9 \<le> n \<and> n \<le> 13) \<or> n = 32 \<or> n = 160)"

definition trim :: "string \<Rightarrow> string" where
  "trim s = rev (dropWhile is_space (rev (dropWhile is_space s)))"

text \<open>
  \<open>String.prototype.toLowerCase\<close>: below 256 the upper-case letters are A to Z and
  the code units 192 to 222 without 215, each 32 below its lower-case letter.
\<close>

definition lower_char :: "char \<Rightarrow> char" where
  "lower_char c =
     (let n = (of_char c :: nat)
      in if (65 \<le> n \<and> n \<le> 90) \<or> (192 \<le> n \<and> n \<le> 222 \<and> n \<noteq> 215)
         then char_of (n + 32) else c)"

definition toLowerCase :: "string \<Rightarrow> string" where
  "toLowerCase s = map lower_char s"

text \<open>\<open>String.prototype.includes\<close>: the search string occurs at some position.\<close>

fun starts_with :: "'a list \<Rightarrow> 'a list \<Rightarrow> bool" where
  "starts_with s [] = True"
| "starts_with [] (q # qs) = False"
| "starts_with (c # cs) (q # qs) = (c = q \<and> starts_with cs qs)"

fun includes_list :: "'a list \<Rightarrow> 'a list \<Rightarrow> bool" where
  "includes_list [] q = starts_with [] q"
| "includes_list (c # cs) q = (starts_with (c # cs) q \<or> includes_list cs q)"

section \<open>Component state and effects\<close>

record js_file =
  name :: string
  payload :: string

record 'd http_response =
  status :: nat
  data :: 'd

text \<open>
  What the \<open>catch\<close> block reads of the thrown error: \<open>err.response\<close> (absent when no
  response arrived), whether \<open>err.request\<close> is set, and \<open>err.message\<close>.
\<close>

record axios_error =
  response :: "jsval http_response option"
  request :: bool
  message :: string

datatype 'd outcome = Resolved "'d http_response" | Rejected axios_error

text \<open>The \<open>useState\<close> cells. \<open>resume\<close> is \<open>None\<close> for \<open>null\<close> and \<open>undefined\<close>.\<close>

record ui_state =
  resume :: "js_file option"
  jobDescription :: string
  loading :: bool
  result :: jsval
  error :: jsval
  success :: string
  strengthsFilter :: string
  weaknessesFilter :: string

datatype form_value = FFile js_file | FText string

datatype body = FormData "(string \<times> form_value) list" | Json jsval

text \<open>
  What a handler does, in program order: the state setters it calls and its calls to the
  outside (\<open>axios.post\<close>, the console, the clipboard, the download link, \<open>setTimeout\<close>
  with the setters its callback runs).
\<close>

datatype action =
    PreventDefault
  | SetResume "js_file option"
  | SetJobDescription string
  | SetLoading bool
  | SetResult jsval
  | SetError jsval
  | SetSuccess string
  | SetStrengthsFilter string
  | SetWeaknessesFilter string
  | Post string body
  | ConsoleError
  | Download string string
  | ClipboardWrite string
  | SetTimeout nat "action list"

fun apply_action :: "action \<Rightarrow> ui_state \<Rightarrow> ui_state" where
  "apply_action (SetResume f) s = s\<lparr>resume := f\<rparr>"
| "apply_action (SetJobDescription t) s = s\<lparr>jobDescription := t\<rparr>"
| "apply_action (SetLoading b) s = s\<lparr>loading := b\<rparr>"
| "apply_action (SetResult v) s = s\<lparr>result := v\<rparr>"
| "apply_action (SetError v) s = s\<lparr>error := v\<rparr>"
| "apply_action (SetSuccess t) s = s\<lparr>success := t\<rparr>"
| "apply_action (SetStrengthsFilter t) s = s\<lparr>strengthsFilter := t\<rparr>"
| "apply_action (SetWeaknessesFilter t) s = s\<lparr>weaknessesFilter := t\<rparr>"
| "apply_action a s = s"

definition run :: "action list \<Rightarrow> ui_state \<Rightarrow> ui_state" where
  "run as s = fold apply_action as s"

fun posts :: "action list \<Rightarrow> (string \<times> body) list" where
  "posts [] = []"
| "posts (Post u b # as) = (u, b) # posts as"
| "posts (a # as) = posts as"



fun timers :: "action list \<Rightarrow> (nat \<times> action list) list" where
  "timers [] = []"
| "timers (SetTimeout d cb # as) = (d, cb) # timers as"
| "timers (a # as) = timers as"

section \<open>Scores\<close>

definition getScoreColor :: "rat \<Rightarrow> string" where
  "getScoreColor score =
     (if score \<ge> 80 then ''success''
      else if score \<ge> 60 then ''info''
      else if score \<ge> 40 then ''warning''
      else ''error'')"

text \<open>
  \<open>ScorePill\<close> on a numeric \<open>value\<close>: \<open>Math.round\<close> rounds a half up, the result is
  clamped to 0..100, printed followed by a percent sign and coloured by \<open>getColor\<close>.
\<close>

definition normalized :: "rat \<Rightarrow> int" where
  "normalized v = max 0 (min 100 (\<lfloor>v + 1 / 2\<rfloor>))"

definition getColor :: "int \<Rightarrow> string" where
  "getColor v =
     (if v \<ge> 80 then ''success''
      else if v \<ge> 60 then ''info''
      else if v \<ge> 40 then ''warning''
      else ''error'')"

section \<open>Handlers\<close>

definition handleFileChange :: "js_file option \<Rightarrow> action list" where
  "handleFileChange f = [SetResume f, SetSuccess '''', SetError (JStr '''')]"

definition formData :: "js_file \<Rightarrow> string \<Rightarrow> (string \<times> form_value) list" where
  "formData f jd =
     [(''resume'', FFile f)] @
     (if trim jd \<noteq> [] then [(''job_description'', FText jd)] else [])"

definition server_message :: "nat \<Rightarrow> string" where
  "server_message st =
     ''Server returned '' @ show_nat st @ ''. Please check your resume and try again.''"

definition network_message :: string where
  "network_message =
     ''No response from the server. Please ensure the backend is running and reachable.''"

text \<open>The argument of \<open>setError\<close> in the \<open>catch\<close> block of \<open>handleSubmit\<close>.\<close>

definition submit_error :: "axios_error \<Rightarrow> jsval" where
  "submit_error err =
     (case response err of
        Some r \<Rightarrow> js_or (opt_prop ''error'' (data r)) (JStr (server_message (status r)))
      | None \<Rightarrow>
          if request err then JStr network_message
          else JStr (''Error: '' @ message err))"

definition handleSubmit_catch :: "axios_error \<Rightarrow> action list" where
  "handleSubmit_catch err = [ConsoleError, SetError (submit_error err)]"

text \<open>
  \<open>handleSubmit\<close>, the same in both components but for the address: \<open>api\<close> is
  \<open>import.meta.env.VITE_API_URL\<close> in \<open>ResumeUploadImproved\<close> and
  \<open>http://localhost:8000\<close> in \<open>ResumeUpload\<close>. The outcome of \<open>axios.post\<close> is an
  argument.
\<close>

definition handleSubmit :: "string \<Rightarrow> ui_state \<Rightarrow> jsval outcome \<Rightarrow> action list" where
  "handleSubmit api s out =
     PreventDefault #
     (case resume s of
        None \<Rightarrow> [SetError (JStr ''Please upload a resume file.'')]
      | Some f \<Rightarrow>
          [SetLoading True, SetError (JStr ''''), SetResult JNull, SetSuccess '''',
           Post (api @ ''/api/upload'') (FormData (formData f (jobDescription s)))] @
          (case out of
             Resolved res \<Rightarrow>
               [SetResult (data res), SetSuccess ''Resume evaluated successfully!'']
           | Rejected err \<Rightarrow> handleSubmit_catch err) @
          [SetLoading False])"

definition handleDownloadPDF :: "string \<Rightarrow> ui_state \<Rightarrow> string outcome \<Rightarrow> action list" where
  "handleDownloadPDF api s out =
     (if \<not> truthy (result s) then [SetError (JStr ''No feedback available to export.'')]
      else
        Post (api @ ''/api/download_feedback_pdf'') (Json (result s)) #
        (case out of
           Resolved res \<Rightarrow> [Download ''resume_feedback.pdf'' (data res)]
         | Rejected err \<Rightarrow>
             [ConsoleError, SetError (JStr ''Failed to download PDF. Please try again.'')]))"

text \<open>\<open>copyToClipboard\<close>; \<open>ok\<close> tells whether \<open>navigator.clipboard.writeText\<close> resolved.\<close>

definition copyToClipboard :: "string \<Rightarrow> bool \<Rightarrow> action list" where
  "copyToClipboard t ok =
     ClipboardWrite t #
     (if ok then [SetSuccess ''Copied to clipboard'', SetTimeout 2000 [SetSuccess '''']]
      else [SetError (JStr ''Failed to copy'')])"

text \<open>The Reset button.\<close>

definition reset :: "action list" where
  "reset = [SetResult JNull, SetError (JStr ''''), SetSuccess '''', SetResume None]"

text \<open>The filtered lists of \<open>ResumeUploadImproved\<close>.\<close>

definition filteredStrengths :: "string list \<Rightarrow> string \<Rightarrow> string list" where
  "filteredStrengths strengths q =
     filter (\<lambda>s. includes_list (toLowerCase s) (toLowerCase q)) strengths"


text \<open>Every event of \<open>ResumeUploadImproved\<close> with the handler it runs.\<close>

datatype event =
    FileChange "js_file option"
  | JobDescriptionChange string
  | Submit "jsval outcome"
  | ExportPDF "string outcome"
  | Reset
  | StrengthsFilterChange string
  | WeaknessesFilterChange string
  | Copy string bool

fun handle :: "string \<Rightarrow> ui_state \<Rightarrow> event \<Rightarrow> action list" where
  "handle api s (FileChange f) = handleFileChange f"
| "handle api s (JobDescriptionChange t) = [SetJobDescription t]"
| "handle api s (Submit out) = handleSubmit api s out"
| "handle api s (ExportPDF out) = handleDownloadPDF api s out"
| "handle api s Reset = reset"
| "handle api s (StrengthsFilterChange t) = [SetStrengthsFilter t]"
| "handle api s (WeaknessesFilterChange t) = [SetWeaknessesFilter t]"
| "handle api s (Copy t ok) = copyToClipboard t ok"

section \<open>The score rows of the result view\<close>

text \<open>
  What is painted for the metrics of a result: a line \<open>label: v%\<close>; the ATS box, with
  the number printed, the value of the progress bar and its colour; a \<open>ScorePill\<close> with
  the props it is given.
\<close>

datatype widget =
    ScoreText string rat
  | AtsScore rat rat string
  | ScorePill string jsval

text \<open>\<open>ResumeUpload\<close>: each metric stands under its own \<open>typeof\<close> test.\<close>

definition scores_ResumeUpload :: "jsval \<Rightarrow> widget list" where
  "scores_ResumeUpload res =
     (if truthy res then
        (if typeof_number (get_prop ''ats_score'' res)
         then (case get_prop ''ats_score'' res of
                 JNum r \<Rightarrow> [AtsScore r r (getScoreColor r)] | _ \<Rightarrow> [])
         else []) @
        (if typeof_number (get_prop ''keyword_overlap'' res)
         then (case get_prop ''keyword_overlap'' res of
                 JNum r \<Rightarrow> [ScoreText ''Keyword Overlap'' r] | _ \<Rightarrow> [])
         else []) @
        (if typeof_number (get_prop ''semantic_similarity'' res)
         then (case get_prop ''semantic_similarity'' res of
                 JNum r \<Rightarrow> [ScoreText ''Semantic Similarity'' r] | _ \<Rightarrow> [])
         else []) @
        (if typeof_number (get_prop ''match_score'' res)
         then (case get_prop ''match_score'' res of
                 JNum r \<Rightarrow> [ScoreText ''Overall Match Score'' r] | _ \<Rightarrow> [])
         else [])
      else [])"

text \<open>
  \<open>ResumeUploadImproved\<close>: three pills, each given \<open>result.k ?? 0\<close>, then the ATS box
  under its \<open>typeof\<close> test, the bar clamped to 0..100.
\<close>

definition scores_ResumeUploadImproved :: "jsval \<Rightarrow> widget list" where
  "scores_ResumeUploadImproved res =
     (if truthy res then
        [ScorePill ''Keyword'' (nullish_or (get_prop ''keyword_overlap'' res) (JNum 0)),
         ScorePill ''Semantic'' (nullish_or (get_prop ''semantic_similarity'' res) (JNum 0)),
         ScorePill ''Match'' (nullish_or (get_prop ''match_score'' res) (JNum 0))] @
        (if typeof_number (get_prop ''ats_score'' res)
         then (case get_prop ''ats_score'' res of
                 JNum r \<Rightarrow> [AtsScore r (max 0 (min 100 r)) (getScoreColor r)] | _ \<Rightarrow> [])
         else [])
      else [])"

text \<open>The label a widget carries, and the widgets of one label in a view.\<close>

fun label_of :: "widget \<Rightarrow> string" where
  "label_of (ScoreText l r) = l"
| "label_of (AtsScore r b c) = ''ATS Score''"
| "label_of (ScorePill l v) = l"

definition shown :: "string \<Rightarrow> widget list \<Rightarrow> widget list" where
  "shown l ws = filter (\<lambda>w. label_of w = l) ws"

section \<open>The filter as the specification words it\<close>


section \<open>Sample inputs\<close>

abbreviation (input) cv :: js_file where
  "cv \<equiv> \<lparr>name = ''cv.pdf'', payload = ''%PDF-1.4''\<rparr>"

abbreviation (input) good_match :: jsval where
  "good_match \<equiv> JObj [(''ats_score'', JNum 85), (''feedback'', JStr ''Good match'')]"

abbreviation (input) no_response :: axios_error where
  "no_response \<equiv> \<lparr>response = None, request = True, message = ''Network Error''\<rparr>"

abbreviation (input) after_success :: ui_state where
  "after_success \<equiv>
     \<lparr>resume = Some cv, jobDescription = '''', loading = False, result = good_match,
      error = JStr '''', success = ''Resume evaluated successfully!'',
      strengthsFilter = '''', weaknessesFilter = ''''\<rparr>"

abbreviation (input) initial :: ui_state where
  "initial \<equiv>
     \<lparr>resume = None, jobDescription = '''', loading = False, result = JNull,
      error = JStr '''', success = '''', strengthsFilter = '''', weaknessesFilter = ''''\<rparr>"

abbreviation (input) server_error :: "jsval \<Rightarrow> axios_error" where
  "server_error d \<equiv>
     \<lparr>response = Some \<lparr>status = 500, data = d\<rparr>, request = True,
      message = ''Request failed with status code 500''\<rparr>"


abbreviation (input) local_api :: string where
  "local_api \<equiv> ''http://localhost:8000''"

section \<open>Auxiliary facts\<close>

lemma shown_append: "shown l (xs @ ys) = shown l xs @ shown l ys"
  by (simp add: shown_def)

lemma shown_Cons: "shown l (w # ws) = (if label_of w = l then w # shown l ws else shown l ws)"
  by (simp add: shown_def)

lemma shown_Nil: "shown l [] = []"
  by (simp add: shown_def)

lemmas shown_simps = shown_append shown_Cons shown_Nil

lemma show_nat_500: "show_nat 500 = ''500''"
  by code_simp

lemma server_message_500:
  "server_message 500 = ''Server returned 500. Please check your resume and try again.''"
  by (simp add: server_message_def show_nat_500)







lemma timers_handle:
  "timers (handle api s ev) = (case ev of Copy t True \<Rightarrow> [(2000, [SetSuccess ''''])] | _ \<Rightarrow> [])"
  by (cases ev)
     (auto simp: handleFileChange_def handleSubmit_def handleSubmit_catch_def
        handleDownloadPDF_def reset_def copyToClipboard_def
        split: option.splits outcome.splits bool.splits)

lemma filteredStrengths_example: "filteredStrengths [''Teamwork''] ''team'' = [''Teamwork'']"
  by code_simp

section \<open>Display of the metrics\<close>

text \<open>
  Claim C1, as stated, fails in \<open>ResumeUploadImproved\<close>: for the result
  \<open>{ ats_score: 85, feedback: "Good match" }\<close> the field \<open>keyword_overlap\<close> is absent, yet
  the view holds a Keyword pill whose value is the number 0, which the pill prints as 0%.
\<close>

theorem absent_metric_shown_as_zero:
  "get_prop ''keyword_overlap'' good_match = JUndefined \<and>
   shown ''Keyword'' (scores_ResumeUploadImproved good_match) = [ScorePill ''Keyword'' (JNum 0)] \<and>
   normalized 0 = 0"
  by (simp add: scores_ResumeUploadImproved_def shown_def nullish_or_def normalized_def)

text \<open>
  Claim C1, amended. Whenever a result is displayed: in \<open>ResumeUpload\<close> each of the four
  metrics is displayed when its field is a number, with that number, and is omitted
  otherwise; in \<open>ResumeUploadImproved\<close> this holds of \<open>ats_score\<close> only, while
  \<open>keyword_overlap\<close>, \<open>semantic_similarity\<close> and \<open>match_score\<close> are each displayed as
  one pill given the field's value, or 0 when the field is \<open>undefined\<close> or \<open>null\<close>, and a
  pill given 0 prints 0%.
\<close>

theorem metric_display:
  assumes "truthy res"
  shows
  "shown ''ATS Score'' (scores_ResumeUpload res) =
     (case get_prop ''ats_score'' res of
        JNum n \<Rightarrow> [AtsScore n n (getScoreColor n)] | _ \<Rightarrow> []) \<and>
   shown ''Keyword Overlap'' (scores_ResumeUpload res) =
     (case get_prop ''keyword_overlap'' res of
        JNum n \<Rightarrow> [ScoreText ''Keyword Overlap'' n] | _ \<Rightarrow> []) \<and>
   shown ''Semantic Similarity'' (scores_ResumeUpload res) =
     (case get_prop ''semantic_similarity'' res of
        JNum n \<Rightarrow> [ScoreText ''Semantic Similarity'' n] | _ \<Rightarrow> []) \<and>
   shown ''Overall Match Score'' (scores_ResumeUpload res) =
     (case get_prop ''match_score'' res of
        JNum n \<Rightarrow> [ScoreText ''Overall Match Score'' n] | _ \<Rightarrow> []) \<and>
   shown ''ATS Score'' (scores_ResumeUploadImproved res) =
     (case get_prop ''ats_score'' res of
        JNum n \<Rightarrow> [AtsScore n (max 0 (min 100 n)) (getScoreColor n)] | _ \<Rightarrow> []) \<and>
   shown ''Keyword'' (scores_ResumeUploadImproved res) =
     [ScorePill ''Keyword'' (nullish_or (get_prop ''keyword_overlap'' res) (JNum 0))] \<and>
   shown ''Semantic'' (scores_ResumeUploadImproved res) =
     [ScorePill ''Semantic'' (nullish_or (get_prop ''semantic_similarity'' res) (JNum 0))] \<and>
   shown ''Match'' (scores_ResumeUploadImproved res) =
     [ScorePill ''Match'' (nullish_or (get_prop ''match_score'' res) (JNum 0))] \<and>
   nullish_or JUndefined (JNum 0) = JNum 0 \<and> nullish_or JNull (JNum 0) = JNum 0 \<and>
   normalized 0 = 0"
proof -
  have a: "shown ''ATS Score'' (scores_ResumeUpload res) =
     (case get_prop ''ats_score'' res of
        JNum n \<Rightarrow> [AtsScore n n (getScoreColor n)] | _ \<Rightarrow> [])"
    using assms by (simp add: scores_ResumeUpload_def shown_simps split: jsval.splits)
  have b: "shown ''Keyword Overlap'' (scores_ResumeUpload res) =
     (case get_prop ''keyword_overlap'' res of
        JNum n \<Rightarrow> [ScoreText ''Keyword Overlap'' n] | _ \<Rightarrow> [])"
    using assms by (simp add: scores_ResumeUpload_def shown_simps split: jsval.splits)
  have c: "shown ''Semantic Similarity'' (scores_ResumeUpload res) =
     (case get_prop ''semantic_similarity'' res of
        JNum n \<Rightarrow> [ScoreText ''Semantic Similarity'' n] | _ \<Rightarrow> [])"
    using assms by (simp add: scores_ResumeUpload_def shown_simps split: jsval.splits)
  have d: "shown ''Overall Match Score'' (scores_ResumeUpload res) =
     (case get_prop ''match_score'' res of
        JNum n \<Rightarrow> [ScoreText ''Overall Match Score'' n] | _ \<Rightarrow> [])"
    using assms by (simp add: scores_ResumeUpload_def shown_simps split: jsval.splits)
  have e: "shown ''ATS Score'' (scores_ResumeUploadImproved res) =
     (case get_prop ''ats_score'' res of
        JNum n \<Rightarrow> [AtsScore n (max 0 (min 100 n)) (getScoreColor n)] | _ \<Rightarrow> [])"
    using assms by (simp add: scores_ResumeUploadImproved_def shown_simps split: jsval.splits)
  have f: "shown ''Keyword'' (scores_ResumeUploadImproved res) =
     [ScorePill ''Keyword'' (nullish_or (get_prop ''keyword_overlap'' res) (JNum 0))]"
    using assms by (simp add: scores_ResumeUploadImproved_def shown_simps split: jsval.splits)
  have g: "shown ''Semantic'' (scores_ResumeUploadImproved res) =
     [ScorePill ''Semantic'' (nullish_or (get_prop ''semantic_similarity'' res) (JNum 0))]"
    using assms by (simp add: scores_ResumeUploadImproved_def shown_simps split: jsval.splits)
  have h: "shown ''Match'' (scores_ResumeUploadImproved res) =
     [ScorePill ''Match'' (nullish_or (get_prop ''match_score'' res) (JNum 0))]"
    using assms by (simp add: scores_ResumeUploadImproved_def shown_simps split: jsval.splits)
  have i: "nullish_or JUndefined (JNum 0) = JNum 0 \<and> nullish_or JNull (JNum 0) = JNum 0 \<and>
           normalized 0 = 0"
    by (simp add: nullish_or_def normalized_def)
  from a b c d e f g h i show ?thesis
    by (intro conjI) simp_all
qed

text \<open>
  The result \<open>{ ats_score: 85, feedback: "Good match" }\<close>: both components show the ATS
  score 85 in the colour "success"; \<open>ResumeUpload\<close> shows no keyword overlap,
  \<open>ResumeUploadImproved\<close> a Keyword pill of 0.
\<close>

theorem metric_display_witness:
  "truthy good_match \<and>
   shown ''ATS Score'' (scores_ResumeUpload good_match) = [AtsScore 85 85 ''success''] \<and>
   shown ''Keyword Overlap'' (scores_ResumeUpload good_match) = [] \<and>
   shown ''ATS Score'' (scores_ResumeUploadImproved good_match) = [AtsScore 85 85 ''success''] \<and>
   shown ''Keyword'' (scores_ResumeUploadImproved good_match) = [ScorePill ''Keyword'' (JNum 0)]"
  using metric_display [of good_match] by (simp add: getScoreColor_def nullish_or_def)

section \<open>The live result across submissions\<close>




section \<open>Score colours\<close>

text \<open>
  Claim C3. For every numeric score the colour is "success" exactly from 80 on, "info"
  exactly from 60 up to 80, "warning" exactly from 40 up to 60 and "error" exactly below
  40; the scores 0, 40, 60, 80 and 100 give "error", "warning", "info", "success" and
  "success".
\<close>

theorem getScoreColor_buckets:
  "(getScoreColor v = ''success'') = (v \<ge> 80) \<and>
   (getScoreColor v = ''info'') = (60 \<le> v \<and> v < 80) \<and>
   (getScoreColor v = ''warning'') = (40 \<le> v \<and> v < 60) \<and>
   (getScoreColor v = ''error'') = (v < 40) \<and>
   getScoreColor 0 = ''error'' \<and> getScoreColor 40 = ''warning'' \<and>
   getScoreColor 60 = ''info'' \<and> getScoreColor 80 = ''success'' \<and>
   getScoreColor 100 = ''success''"
  by (simp add: getScoreColor_def)

section \<open>Classification of a failed submission\<close>



section \<open>The filtered lists\<close>


section \<open>The request payload\<close>

text \<open>
  Claim C6. A submit with a file selected makes one request, whose form data holds the
  resume alone when the job description is empty after trimming, and the resume followed
  by the field \<open>job_description\<close> when it is not.
\<close>

theorem job_description_field:
  assumes "resume s = Some f"
  shows "posts (handleSubmit api s out) =
           [(api @ ''/api/upload'', FormData (formData f (jobDescription s)))] \<and>
         (trim (jobDescription s) = [] \<longrightarrow>
            formData f (jobDescription s) = [(''resume'', FFile f)]) \<and>
         (trim (jobDescription s) \<noteq> [] \<longrightarrow>
            formData f (jobDescription s) =
              [(''resume'', FFile f), (''job_description'', FText (jobDescription s))])"
  using assms
  by (cases out) (simp_all add: handleSubmit_def handleSubmit_catch_def formData_def)

text \<open>A job description of blanks only, and one with text between blanks.\<close>

theorem job_description_field_witness:
  "posts (handleSubmit local_api (after_success\<lparr>jobDescription := ''   ''\<rparr>)
            (Rejected no_response)) =
     [(''http://localhost:8000/api/upload'', FormData [(''resume'', FFile cv)])] \<and>
   posts (handleSubmit local_api (after_success\<lparr>jobDescription := '' Data engineer ''\<rparr>)
            (Rejected no_response)) =
     [(''http://localhost:8000/api/upload'',
       FormData [(''resume'', FFile cv), (''job_description'', FText '' Data engineer '')])]"
  using
    job_description_field [of "after_success\<lparr>jobDescription := ''   ''\<rparr>" cv local_api
      "Rejected no_response"]
    job_description_field [of "after_success\<lparr>jobDescription := '' Data engineer ''\<rparr>" cv
      local_api "Rejected no_response"]
  by (simp add: trim_def is_space_def)

section \<open>Submitting without a file\<close>

text \<open>
  Claim C7. A submit with no file selected sets the error message
  "Please upload a resume file." and does nothing else: no request is made, the loading
  flag is not touched, and the state differs from the one before in the error message
  only.
\<close>

theorem submit_without_resume:
  assumes "resume s = None"
  shows "handleSubmit api s out =
           [PreventDefault, SetError (JStr ''Please upload a resume file.'')] \<and>
         posts (handleSubmit api s out) = [] \<and>
         run (handleSubmit api s out) s = s\<lparr>error := JStr ''Please upload a resume file.''\<rparr> \<and>
         loading (run (handleSubmit api s out) s) = loading s"
  using assms by (simp add: handleSubmit_def run_def)

text \<open>The first submit of a session, before any file was chosen.\<close>

theorem submit_without_resume_witness:
  "resume initial = None \<and>
   posts (handleSubmit local_api initial (Rejected no_response)) = [] \<and>
   error (run (handleSubmit local_api initial (Rejected no_response)) initial) =
     JStr ''Please upload a resume file.'' \<and>
   loading (run (handleSubmit local_api initial (Rejected no_response)) initial) = False"
  using submit_without_resume [of initial local_api "Rejected no_response"]
  by (simp add: run_def)

section \<open>Export of the feedback\<close>




section \<open>Copy to the clipboard\<close>

text \<open>
  Claim C9. A successful copy sets the message "Copied to clipboard" and starts one timer
  of 2000 milliseconds whose callback empties the success message; a failed copy sets
  the error "Failed to copy" in the error cell that a failed submission writes, and
  starts no timer. No other event of the component starts a timer.
\<close>

theorem copy_feedback_and_timer:
  "success (run (copyToClipboard t True) s) = ''Copied to clipboard'' \<and>
   timers (copyToClipboard t True) = [(2000, [SetSuccess ''''])] \<and>
   success (run [SetSuccess ''''] s') = '''' \<and>
   error (run (copyToClipboard t False) s) = JStr ''Failed to copy'' \<and>
   timers (copyToClipboard t False) = [] \<and>
   (timers (handle api s ev) \<noteq> []) = (\<exists>u. ev = Copy u True)"
  by (auto simp: copyToClipboard_def run_def timers_handle split: event.splits bool.splits)

section \<open>A falsy error field\<close>

text \<open>
  Claim C10. When the response of a failed submission carries a body whose error field is
  falsy (the empty string, \<open>null\<close>, \<open>false\<close>, 0, or no field at all), the message
  displayed is the one made from the status code, not the field.
\<close>

theorem falsy_error_falls_back:
  assumes "response err = Some r" and "\<not> truthy (opt_prop ''error'' (data r))"
  shows "submit_error err = JStr (server_message (status r)) \<and>
         (resume s = Some f \<longrightarrow>
            error (run (handleSubmit api s (Rejected err)) s) =
              JStr (server_message (status r)))"
  using assms
  by (simp add: handleSubmit_def handleSubmit_catch_def run_def submit_error_def js_or_def)

text \<open>Status 500 with the body \<open>{ error: "" }\<close>.\<close>

theorem falsy_error_falls_back_witness:
  "get_prop ''error'' (JObj [(''error'', JStr '''')]) = JStr '''' \<and>
   error (run (handleSubmit local_api after_success
                 (Rejected (server_error (JObj [(''error'', JStr '''')])))) after_success) =
     JStr ''Server returned 500. Please check your resume and try again.''"
  using falsy_error_falls_back [of "server_error (JObj [(''error'', JStr '''')])"
      "\<lparr>status = 500, data = JObj [(''error'', JStr '''')]\<rparr>" after_success cv local_api]
  by (simp add: opt_prop_def server_message_500)

end
